theory Spec2Isabelle
  imports Complex_Main "HOL-Library.Word"
begin

unbundle bit_operations_syntax

section \<open>JavaScript values used by addUserForm.js\<close>

text \<open>
  A JavaScript string is a sequence of UTF-16 code units. String literals of the source
  are written \<open>js ''...''\<close>; code units outside ASCII are written as numerals
  (\<open>0xFC\<close> is u-umlaut, \<open>0xE4\<close> is a-umlaut, \<open>0x2026\<close> is the horizontal
  ellipsis).
\<close>

type_synonym jsstring = "16 word list"

definition js :: "string \<Rightarrow> jsstring" where
  "js s = map (\<lambda>c. of_nat (of_char c)) s"

text \<open>
  A number is \<open>NaN\<close>, one of the two infinities, an integer (\<open>Num n\<close>) or another
  finite number (\<open>Fraction q\<close>, with \<open>q\<close> not an integer). \<open>-0\<close> is identified with
  \<open>0\<close>, from which no operation below tells it apart.
\<close>

datatype jsnum = NaN | Num int | PosInfinity | NegInfinity | Fraction rat

datatype jsval = JUndefined | JNull | JBool bool | JNumber jsnum | JString jsstring

text \<open>
  An object as \<open>JSON.parse\<close> builds it, read by property name; a property it does
  not have reads as \<open>undefined\<close> (the names read here are not those of
  \<open>Object.prototype\<close>).
\<close>

type_synonym jsobject = "jsstring \<rightharpoonup> jsval"

definition get_prop :: "jsobject \<Rightarrow> jsstring \<Rightarrow> jsval" where
  "get_prop obj k = (case obj k of None \<Rightarrow> JUndefined | Some v \<Rightarrow> v)"

fun nat_digits :: "nat \<Rightarrow> jsstring" where
  "nat_digits n =
     (if n < 10 then [of_nat (48 + n)]
      else nat_digits (n div 10) @ [of_nat (48 + n mod 10)])"

declare nat_digits.simps [simp del]

definition int_digits :: "int \<Rightarrow> jsstring" where
  "int_digits n = (if n < 0 then js ''-'' @ nat_digits (nat (- n)) else nat_digits (nat n))"

text \<open>
  Number::toString. An integer of magnitude below \<open>10 ^ 21\<close> is printed with all its
  digits. From \<open>10 ^ 21\<close> on the language prints exponent notation, and a fraction
  the shortest decimal that reads back as the same double: that text is not computed
  here but taken from the first argument, the language's own conversion.
\<close>

fun NumberToString :: "(jsnum \<Rightarrow> jsstring) \<Rightarrow> jsnum \<Rightarrow> jsstring" where
  "NumberToString number_text NaN = js ''NaN''"
| "NumberToString number_text PosInfinity = js ''Infinity''"
| "NumberToString number_text NegInfinity = js ''-Infinity''"
| "NumberToString number_text (Num n) =
     (if \<bar>n\<bar> < 10 ^ 21 then int_digits n else number_text (Num n))"
| "NumberToString number_text (Fraction q) = number_text (Fraction q)"

fun ToString :: "(jsnum \<Rightarrow> jsstring) \<Rightarrow> jsval \<Rightarrow> jsstring" where
  "ToString number_text JUndefined = js ''undefined''"
| "ToString number_text JNull = js ''null''"
| "ToString number_text (JBool b) = (if b then js ''true'' else js ''false'')"
| "ToString number_text (JNumber x) = NumberToString number_text x"
| "ToString number_text (JString s) = s"

fun ToBoolean :: "jsval \<Rightarrow> bool" where
  "ToBoolean JUndefined = False"
| "ToBoolean JNull = False"
| "ToBoolean (JBool b) = b"
| "ToBoolean (JNumber NaN) = False"
| "ToBoolean (JNumber (Num n)) = (n \<noteq> 0)"
| "ToBoolean (JNumber PosInfinity) = True"
| "ToBoolean (JNumber NegInfinity) = True"
| "ToBoolean (JNumber (Fraction q)) = (q \<noteq> 0)"
| "ToBoolean (JString s) = (s \<noteq> [])"

subsection \<open>The operators of the settings loop\<close>

text \<open>
  \<open>settingsValue |= settingsValues[name] * checked\<close>: the property read gives a number
  or \<open>undefined\<close>, the product converts \<open>undefined\<close> to \<open>NaN\<close> and the boolean to
  1 or 0, and \<open>|\<close> converts both operands with ToInt32 (\<open>NaN\<close> and the infinities
  to 0, a finite number, cut to its integer part, to its residue modulo \<open>2 ^ 32\<close> read
  as two's complement).
\<close>

fun ToInt32 :: "jsnum \<Rightarrow> 32 word" where
  "ToInt32 NaN = 0"
| "ToInt32 (Num n) = word_of_int n"
| "ToInt32 PosInfinity = 0"
| "ToInt32 NegInfinity = 0"
| "ToInt32 (Fraction q) = word_of_int (if 0 \<le> q then \<lfloor>q\<rfloor> else \<lceil>q\<rceil>)"

definition js_bitor :: "jsnum \<Rightarrow> jsnum \<Rightarrow> jsnum" where
  "js_bitor a b = Num (sint (ToInt32 a OR ToInt32 b))"

fun js_times_bool :: "jsnum \<Rightarrow> bool \<Rightarrow> jsnum" where
  "js_times_bool NaN c = NaN"
| "js_times_bool (Num v) c = Num (v * (if c then 1 else 0))"
| "js_times_bool PosInfinity c = (if c then PosInfinity else NaN)"
| "js_times_bool NegInfinity c = (if c then NegInfinity else NaN)"
| "js_times_bool (Fraction q) c = (if c then Fraction q else Num 0)"

definition registry_read :: "(jsstring \<rightharpoonup> int) \<Rightarrow> jsstring \<Rightarrow> jsnum" where
  "registry_read reg k = (case reg k of None \<Rightarrow> NaN | Some v \<Rightarrow> Num v)"

subsection \<open>JSON.stringify on a flat object\<close>

definition hex_digit :: "nat \<Rightarrow> 16 word" where
  "hex_digit d = (if d < 10 then of_nat (48 + d) else of_nat (87 + d))"

definition unicode_escape :: "16 word \<Rightarrow> jsstring" where
  "unicode_escape c =
     [0x5C, 0x75, hex_digit (unat c div 4096), hex_digit (unat c div 256 mod 16),
      hex_digit (unat c div 16 mod 16), hex_digit (unat c mod 16)]"

definition escape_unit :: "16 word \<Rightarrow> jsstring" where
  "escape_unit c =
     (if c = 0x08 then [0x5C, 0x62]
      else if c = 0x09 then [0x5C, 0x74]
      else if c = 0x0A then [0x5C, 0x6E]
      else if c = 0x0C then [0x5C, 0x66]
      else if c = 0x0D then [0x5C, 0x72]
      else if c = 0x22 then [0x5C, 0x22]
      else if c = 0x5C then [0x5C, 0x5C]
      else if c < 0x20 then unicode_escape c
      else [c])"

definition is_high_surrogate :: "16 word \<Rightarrow> bool" where
  "is_high_surrogate c = (0xD800 \<le> c \<and> c \<le> 0xDBFF)"

definition is_low_surrogate :: "16 word \<Rightarrow> bool" where
  "is_low_surrogate c = (0xDC00 \<le> c \<and> c \<le> 0xDFFF)"

text \<open>
  The characters between the quotes: a surrogate pair is copied, a lone surrogate is
  escaped, every other code unit goes through the escape table.
\<close>

fun quote_units :: "jsstring \<Rightarrow> jsstring" where
  "quote_units [] = []"
| "quote_units [c] =
     (if is_high_surrogate c \<or> is_low_surrogate c then unicode_escape c else escape_unit c)"
| "quote_units (c # d # cs) =
     (if is_high_surrogate c \<and> is_low_surrogate d then c # d # quote_units cs
      else if is_high_surrogate c \<or> is_low_surrogate c
        then unicode_escape c @ quote_units (d # cs)
      else escape_unit c @ quote_units (d # cs))"

definition QuoteJSONString :: "jsstring \<Rightarrow> jsstring" where
  "QuoteJSONString s = [0x22] @ quote_units s @ [0x22]"

text \<open>The text of a property value; \<open>None\<close> for \<open>undefined\<close>, whose property is left out.\<close>

text \<open>A number that is not finite is written \<open>null\<close>, a finite one as Number::toString.\<close>

fun SerializeJSONNumber :: "(jsnum \<Rightarrow> jsstring) \<Rightarrow> jsnum \<Rightarrow> jsstring" where
  "SerializeJSONNumber number_text NaN = js ''null''"
| "SerializeJSONNumber number_text PosInfinity = js ''null''"
| "SerializeJSONNumber number_text NegInfinity = js ''null''"
| "SerializeJSONNumber number_text (Num n) = NumberToString number_text (Num n)"
| "SerializeJSONNumber number_text (Fraction q) = NumberToString number_text (Fraction q)"

fun SerializeJSONProperty :: "(jsnum \<Rightarrow> jsstring) \<Rightarrow> jsval \<Rightarrow> jsstring option" where
  "SerializeJSONProperty number_text JUndefined = None"
| "SerializeJSONProperty number_text JNull = Some (js ''null'')"
| "SerializeJSONProperty number_text (JBool b) = Some (if b then js ''true'' else js ''false'')"
| "SerializeJSONProperty number_text (JNumber x) = Some (SerializeJSONNumber number_text x)"
| "SerializeJSONProperty number_text (JString s) = Some (QuoteJSONString s)"

fun json_members :: "(jsnum \<Rightarrow> jsstring) \<Rightarrow> (jsstring \<times> jsval) list \<Rightarrow> jsstring list" where
  "json_members number_text [] = []"
| "json_members number_text ((k, v) # ps) =
     (case SerializeJSONProperty number_text v of
        None \<Rightarrow> json_members number_text ps
      | Some s \<Rightarrow> (QuoteJSONString k @ js '':'' @ s) # json_members number_text ps)"

fun join_comma :: "jsstring list \<Rightarrow> jsstring" where
  "join_comma [] = []"
| "join_comma [s] = s"
| "join_comma (s # t # ts) = s @ js '','' @ join_comma (t # ts)"

definition JSON_stringify :: "(jsnum \<Rightarrow> jsstring) \<Rightarrow> (jsstring \<times> jsval) list \<Rightarrow> jsstring" where
  "JSON_stringify number_text obj = js ''{'' @ join_comma (json_members number_text obj) @ js ''}''"

text \<open>
  An object literal creates its properties from left to right; a repeated key keeps its
  first position and takes the later value. Properties are then listed in creation
  order. That is the language's order for the keys an identifier name can give: a key
  made of digits only would be listed first, in numeric order, and the key
  \<open>__proto__\<close> of a literal sets the prototype instead of creating a property.
  \<open>plain_key\<close> holds of the keys that are neither.
\<close>

definition is_digit :: "16 word \<Rightarrow> bool" where
  "is_digit c = (0x30 \<le> c \<and> c \<le> 0x39)"


fun put_prop :: "jsstring \<Rightarrow> jsval \<Rightarrow> (jsstring \<times> jsval) list \<Rightarrow> (jsstring \<times> jsval) list" where
  "put_prop k v [] = [(k, v)]"
| "put_prop k v ((k', v') # ps) =
     (if k' = k then (k, v) # ps else (k', v') # put_prop k v ps)"

definition object_literal :: "(jsstring \<times> jsval) list \<Rightarrow> (jsstring \<times> jsval) list" where
  "object_literal ps = foldl (\<lambda>obj (k, v). put_prop k v obj) [] ps"

section \<open>The page: template constants, browser, form and state\<close>

text \<open>
  The script is a server-side template: every \<open>{{ ... }}\<close> placeholder is a constant
  fixed when the page is rendered. They are parameters of the model. The handlers are
  rendered only for a session with the \<open>_CREATE_MEMBERS\<close> setting; the model is that
  of a page that has them.
\<close>

record template =
  register_url :: jsstring
  add_user_url :: jsstring
  FIELD_DATA :: jsstring
  FIELD_CSRF_TOKEN_HEADER :: jsstring
  FIELD_CSRF_TOKEN :: jsstring
  FIELD_USERNAME :: jsstring
  FIELD_PERMISSION_GROUP :: jsstring
  FIELD_SETTINGS :: jsstring
  AlreadyExistsError_identifier :: jsstring
  UsernameTooLong_identifier :: jsstring
  UsernameTooShort_identifier :: jsstring
  CannotBeNamedAnonymous_identifier :: jsstring
  UsernameInvalidCharacters_identifier :: jsstring

text \<open>
  What the script reads from its surroundings: \<open>location.host\<close>, the global table
  \<open>settingsValues\<close> and the function \<open>getCookie\<close> (both defined elsewhere on the
  page), whether \<open>navigator.clipboard\<close> is defined (it is \<open>undefined\<close> on a page
  that is not a secure context), the built-in conversion \<open>Number\<close> applied to a
  string, and the decimal text the language gives a number that is a fraction or of
  magnitude from \<open>10 ^ 21\<close>.
\<close>

record browser =
  location_host :: jsstring
  settingsValues :: "jsstring \<rightharpoonup> int"
  getCookie :: "jsstring \<Rightarrow> jsval"
  navigator_clipboard :: bool
  Number :: "jsstring \<Rightarrow> jsnum"
  Number_toString :: "jsnum \<Rightarrow> jsstring"

text \<open>
  The form as it stands when it is submitted. Every child of the settings box holds an
  input as its first child, with a \<open>name\<close> and a \<open>checked\<close> state.
\<close>

record control =
  name :: jsstring
  checked :: bool

record form =
  username_value :: jsstring
  pgroup_value :: jsstring
  settings_children :: "control list"

record request =
  url :: jsstring
  http_method :: jsstring
  headers :: "(jsstring \<times> jsval) list"
  body :: jsstring

datatype error = TypeError

text \<open>
  Everything the script does to the outside, in program order; an error that a handler
  throws is reported by the page as uncaught.
\<close>

datatype effect =
    SetTextContent jsstring
  | SetLinkDisplay jsstring
  | SetBoxDisplay jsstring
  | PreventDefault
  | ConsoleLog jsnum
  | Fetch request
  | ClipboardWriteText jsstring
  | Uncaught error

text \<open>
  The two globals of the script, the three properties of the message box it writes, and
  the trace of effects.
\<close>

record page =
  lastUsername :: jsval
  addUserMessageBoxLink :: jsstring
  textContent :: jsstring
  linkElm_display :: jsstring
  messageBox_display :: jsstring
  trace :: "effect list"

definition initial_page :: "jsstring \<Rightarrow> jsstring \<Rightarrow> jsstring \<Rightarrow> page" where
  "initial_page txt link_display box_display =
     \<lparr>lastUsername = JNull, addUserMessageBoxLink = [], textContent = txt,
      linkElm_display = link_display, messageBox_display = box_display, trace = []\<rparr>"

definition emit :: "effect \<Rightarrow> page \<Rightarrow> page" where
  "emit e st = st\<lparr>trace := trace st @ [e]\<rparr>"

definition set_textContent :: "jsstring \<Rightarrow> page \<Rightarrow> page" where
  "set_textContent s st = emit (SetTextContent s) (st\<lparr>textContent := s\<rparr>)"

definition set_linkElm_display :: "jsstring \<Rightarrow> page \<Rightarrow> page" where
  "set_linkElm_display s st = emit (SetLinkDisplay s) (st\<lparr>linkElm_display := s\<rparr>)"

definition set_messageBox_display :: "jsstring \<Rightarrow> page \<Rightarrow> page" where
  "set_messageBox_display s st = emit (SetBoxDisplay s) (st\<lparr>messageBox_display := s\<rparr>)"

section \<open>The three handlers\<close>

text \<open>
  \<open>navigator.clipboard.writeText(addUserMessageBoxLink)\<close>: where
  \<open>navigator.clipboard\<close> is \<open>undefined\<close>, reading its property \<open>writeText\<close> throws a
  TypeError and nothing is written.
\<close>

definition copyAddUserMessageLink :: "browser \<Rightarrow> page \<Rightarrow> error + page" where
  "copyAddUserMessageLink b st =
     (if navigator_clipboard b
      then Inr (emit (ClipboardWriteText (addUserMessageBoxLink st)) st)
      else Inl TypeError)"

text \<open>The \<open>switch (data.reason)\<close>: strict equality with each case in turn.\<close>

definition failure_text :: "template \<Rightarrow> jsval \<Rightarrow> jsstring" where
  "failure_text t r =
     (if r = JString (AlreadyExistsError_identifier t)
        then js ''Nutzername wird bereits verwendet.''
      else if r = JString (UsernameTooLong_identifier t)
        then js ''Nutzername muss k'' @ [0xFC] @ js ''rzer sein.''
      else if r = JString (UsernameTooShort_identifier t)
        then js ''Nutzername muss l'' @ [0xE4] @ js ''nger sein.''
      else if r = JString (CannotBeNamedAnonymous_identifier t)
        then js ''Dein Nutzername kann nicht 'Anonymous' sein.''
      else if r = JString (UsernameInvalidCharacters_identifier t)
        then js ''Nutzername muss aus den Zeichen a-z, A-Z, 0-9, _ und - bestehen.''
      else js ''Konnte nicht erstellt werden.'')"

definition registration_link :: "template \<Rightarrow> browser \<Rightarrow> jsobject \<Rightarrow> jsstring" where
  "registration_link t b data =
     js ''https://'' @ location_host b @ (register_url t @ js ''?user_slot='')
       @ ToString (Number_toString b) (get_prop data (FIELD_DATA t))"

definition addUserSuccess :: "template \<Rightarrow> browser \<Rightarrow> jsobject \<Rightarrow> page \<Rightarrow> page" where
  "addUserSuccess t b data st =
     set_messageBox_display []
       (if ToBoolean (get_prop data (js ''success'')) then
          (let st1 = set_textContent
                       (ToString (Number_toString b) (lastUsername st) @ js '' was added.'') st;
               st2 = set_linkElm_display [] st1
           in st2\<lparr>addUserMessageBoxLink := registration_link t b data\<rparr>)
        else set_textContent (failure_text t (get_prop data (js ''reason''))) st)"

primrec settingsLoop :: "(jsstring \<rightharpoonup> int) \<Rightarrow> control list \<Rightarrow> jsnum \<Rightarrow> jsnum" where
  "settingsLoop reg [] settingsValue = settingsValue"
| "settingsLoop reg (child # rest) settingsValue =
     settingsLoop reg rest
       (js_bitor settingsValue (js_times_bool (registry_read reg (name child)) (checked child)))"

definition settingsMask :: "(jsstring \<rightharpoonup> int) \<Rightarrow> control list \<Rightarrow> jsnum" where
  "settingsMask reg children = settingsLoop reg children (Num 0)"

definition request_headers :: "template \<Rightarrow> browser \<Rightarrow> (jsstring \<times> jsval) list" where
  "request_headers t b =
     object_literal
       [(js ''Accept'', JString (js ''application/json'')),
        (js ''Content-Type'', JString (js ''application/json'')),
        (FIELD_CSRF_TOKEN_HEADER t, getCookie b (FIELD_CSRF_TOKEN t))]"

definition request_object ::
  "template \<Rightarrow> browser \<Rightarrow> form \<Rightarrow> jsval \<Rightarrow> jsnum \<Rightarrow> (jsstring \<times> jsval) list" where
  "request_object t b f username settingsValue =
     object_literal
       [(FIELD_USERNAME t, username),
        (FIELD_PERMISSION_GROUP t, JNumber (Number b (pgroup_value f))),
        (FIELD_SETTINGS t, JNumber settingsValue)]"

definition add_user_request :: "template \<Rightarrow> browser \<Rightarrow> form \<Rightarrow> jsval \<Rightarrow> jsnum \<Rightarrow> request" where
  "add_user_request t b f username settingsValue =
     \<lparr>url = add_user_url t, http_method = js ''POST'', headers = request_headers t b,
      body = JSON_stringify (Number_toString b) (request_object t b f username settingsValue)\<rparr>"

definition onSubmit :: "template \<Rightarrow> browser \<Rightarrow> form \<Rightarrow> page \<Rightarrow> page" where
  "onSubmit t b f st =
     (let st1 = set_textContent (js ''...'') st;
          st2 = emit PreventDefault st1;
          st3 = st2\<lparr>lastUsername := JString (username_value f)\<rparr>;
          settingsValue = settingsMask (settingsValues b) (settings_children f);
          st4 = emit (ConsoleLog settingsValue) st3
      in emit (Fetch (add_user_request t b f (lastUsername st4) settingsValue)) st4)"

text \<open>
  The page reacts to three kinds of event: the form is submitted, the response of a
  request arrives (\<open>.then(addUserSuccess)\<close>), the copy link is activated. A handler
  that throws leaves the page as it was, with the error reported.
\<close>

datatype event = Submit form | Response jsobject | CopyLink

fun handle :: "template \<Rightarrow> browser \<Rightarrow> event \<Rightarrow> page \<Rightarrow> page" where
  "handle t b (Submit f) st = onSubmit t b f st"
| "handle t b (Response data) st = addUserSuccess t b data st"
| "handle t b CopyLink st =
     (case copyAddUserMessageLink b st of Inl e \<Rightarrow> emit (Uncaught e) st | Inr st' \<Rightarrow> st')"

definition run :: "template \<Rightarrow> browser \<Rightarrow> event list \<Rightarrow> page \<Rightarrow> page" where
  "run t b es st = fold (handle t b) es st"

fun is_success :: "event \<Rightarrow> bool" where
  "is_success (Response data) = ToBoolean (get_prop data (js ''success''))"
| "is_success _ = False"

fun is_submit :: "event \<Rightarrow> bool" where
  "is_submit (Submit f) = True"
| "is_submit _ = False"

section \<open>Notions of the specification\<close>

text \<open>
  The bit values the specification speaks of: those of the controls that are enabled
  and have an entry in the registry, those of all controls with an entry, and the
  bitwise OR of a list of integers.
\<close>

definition enabled_values :: "(jsstring \<rightharpoonup> int) \<Rightarrow> control list \<Rightarrow> int list" where
  "enabled_values reg cs = List.map_filter (\<lambda>c. if checked c then reg (name c) else None) cs"

definition registered_values :: "(jsstring \<rightharpoonup> int) \<Rightarrow> control list \<Rightarrow> int list" where
  "registered_values reg cs = List.map_filter (\<lambda>c. reg (name c)) cs"

definition or_all :: "int list \<Rightarrow> int" where
  "or_all vs = foldr (OR) vs 0"

text \<open>An integer as the operator \<open>|\<close> returns it: reduced to 32 bits, two's complement.\<close>

definition int32 :: "int \<Rightarrow> int" where
  "int32 n = sint (word_of_int n :: 32 word)"

text \<open>
  The result panel is shown when its inline \<open>display\<close> property is the empty string
  (the value the script assigns; it removes an inline \<open>display: none\<close>).
\<close>

definition panel_shown :: "page \<Rightarrow> bool" where
  "panel_shown st = (messageBox_display st = [])"

subsection \<open>Reading JSON text\<close>

















subsection \<open>A concrete page\<close>

text \<open>
  Modelled from the spec: the constants the server renders into the template, which the
  source leaves as placeholders. The field names (\<open>username\<close>, \<open>permission_group\<close>,
  \<open>settings\<close>, \<open>slot\<close>) and the five reason codes are those of the specification's
  scenarios and error taxonomy; the two paths and the two token names are not given
  there and are examples.
\<close>

definition example_template :: template where
  "example_template =
     \<lparr>register_url = js ''/register'', add_user_url = js ''/add_user'',
      FIELD_DATA = js ''slot'',
      FIELD_CSRF_TOKEN_HEADER = js ''X-CSRF-Token'', FIELD_CSRF_TOKEN = js ''csrf_token'',
      FIELD_USERNAME = js ''username'', FIELD_PERMISSION_GROUP = js ''permission_group'',
      FIELD_SETTINGS = js ''settings'',
      AlreadyExistsError_identifier = js ''AlreadyExists'',
      UsernameTooLong_identifier = js ''UsernameTooLong'',
      UsernameTooShort_identifier = js ''UsernameTooShort'',
      CannotBeNamedAnonymous_identifier = js ''ReservedName'',
      UsernameInvalidCharacters_identifier = js ''InvalidCharacters''\<rparr>"

text \<open>
  An example browser: three registered settings with the bit values 1, 2 and 4, the
  clipboard present, and \<open>Number\<close> as it is on the strings the examples convert
  (\<open>2\<close>, and \<open>abc\<close>, which is no number). No example prints a fraction or a number
  from \<open>10 ^ 21\<close>, so the text for those is left empty.
\<close>

definition decimal_Number :: "jsstring \<Rightarrow> jsnum" where
  "decimal_Number s =
     (if list_all is_digit s then Num (foldl (\<lambda>n c. 10 * n + (uint c - 48)) 0 s) else NaN)"

definition example_browser :: browser where
  "example_browser =
     \<lparr>location_host = js ''panel.example.org:8443'',
      settingsValues = [js ''create_members'' \<mapsto> 1, js ''view_members'' \<mapsto> 2,
                        js ''edit_settings'' \<mapsto> 4],
      getCookie = (\<lambda>k. if k = js ''csrf_token'' then JString (js ''t0k3n'') else JUndefined),
      navigator_clipboard = True,
      Number = decimal_Number,
      Number_toString = (\<lambda>x. [])\<rparr>"

text \<open>The same browser on a page that is not a secure context.\<close>

definition insecure_browser :: browser where
  "insecure_browser = example_browser\<lparr>navigator_clipboard := False\<rparr>"

text \<open>
  The form of the specification's scenario: username \<open>alice\<close>, permission group 2, the
  settings with bit values 1 and 4 enabled; a fourth control has no registry entry.
\<close>

definition example_form :: form where
  "example_form =
     \<lparr>username_value = js ''alice'', pgroup_value = js ''2'',
      settings_children =
        [\<lparr>name = js ''create_members'', checked = True\<rparr>,
         \<lparr>name = js ''view_members'', checked = False\<rparr>,
         \<lparr>name = js ''edit_settings'', checked = True\<rparr>,
         \<lparr>name = js ''dark_mode'', checked = True\<rparr>]\<rparr>"

definition example_page :: page where
  "example_page = initial_page [] (js ''none'') (js ''none'')"

definition success_response :: "jsstring \<Rightarrow> jsobject" where
  "success_response token = [js ''success'' \<mapsto> JBool True, js ''slot'' \<mapsto> JString token]"

definition failure_response :: "jsstring \<Rightarrow> jsobject" where
  "failure_response code = [js ''success'' \<mapsto> JBool False, js ''reason'' \<mapsto> JString code]"

section \<open>Strings\<close>

lemma of_char_lt: "(of_char c :: nat) < 256"
  by (cases c) simp

lemma js_unit_eq_iff: "(of_nat (of_char c) :: 16 word) = of_nat (of_char d) \<longleftrightarrow> c = d"
proof -
  have small: "(of_char x :: nat) < 2 ^ 16" for x
    by (rule less_trans [OF of_char_lt]) simp
  have "(of_char c :: nat) < 2 ^ 16" "(of_char d :: nat) < 2 ^ 16"
    by (rule small)+
  then show ?thesis
    by (simp add: word_of_nat_eq_iff take_bit_nat_eq_self)
qed

lemma js_eq_iff [simp]: "js a = js b \<longleftrightarrow> a = b"
  unfolding js_def by (rule inj_map_eq_map) (simp add: inj_def js_unit_eq_iff)

lemma js_Nil [simp]: "js [] = []"
  by (simp add: js_def)

lemma js_eq_Nil [simp]: "js a = [] \<longleftrightarrow> a = []"
  by (simp add: js_def)

lemma Nil_eq_js [simp]: "[] = js a \<longleftrightarrow> a = []"
  by (simp add: js_def)

section \<open>The settings mask\<close>

lemma enabled_values_Nil: "enabled_values reg [] = []"
  by (simp add: enabled_values_def map_filter_simps)

lemma enabled_values_Cons:
  "enabled_values reg (c # cs) =
     (case (if checked c then reg (name c) else None) of
        None \<Rightarrow> enabled_values reg cs | Some v \<Rightarrow> v # enabled_values reg cs)"
  by (simp add: enabled_values_def map_filter_simps split: option.splits)

lemma enabled_values_append:
  "enabled_values reg (xs @ ys) = enabled_values reg xs @ enabled_values reg ys"
  by (induction xs) (simp_all add: enabled_values_Nil enabled_values_Cons split: option.splits)

lemma enabled_values_registered:
  "enabled_values reg (filter (\<lambda>d. reg (name d) \<noteq> None) cs) = enabled_values reg cs"
  by (induction cs) (auto simp: enabled_values_Nil enabled_values_Cons split: option.splits)

lemma set_enabled_values:
  "set (enabled_values reg cs) = {v. \<exists>c \<in> set cs. checked c \<and> reg (name c) = Some v}"
  by (induction cs) (auto simp: enabled_values_Nil enabled_values_Cons split: if_splits option.splits)

lemma enabled_none: "\<forall>c \<in> set cs. \<not> checked c \<Longrightarrow> enabled_values reg cs = []"
  by (induction cs) (simp_all add: enabled_values_Nil enabled_values_Cons)

lemma enabled_all: "\<forall>c \<in> set cs. checked c \<Longrightarrow> enabled_values reg cs = registered_values reg cs"
  by (induction cs) (simp_all add: enabled_values_def registered_values_def map_filter_simps split: option.splits)

lemma or_all_Nil: "or_all [] = 0"
  by (simp add: or_all_def)

lemma or_all_Cons: "or_all (v # vs) = v OR or_all vs"
  by (simp add: or_all_def)

lemma or_all_bit: "bit (or_all vs) i \<longleftrightarrow> (\<exists>v \<in> set vs. bit v i)"
  by (induction vs) (auto simp: or_all_Nil or_all_Cons bit_or_iff)

lemma or_all_set: "set vs = set ws \<Longrightarrow> or_all vs = or_all ws"
  by (rule bit_eqI) (simp add: or_all_bit)

lemma int32_bit: "i < 32 \<Longrightarrow> bit (int32 n) i \<longleftrightarrow> bit n i"
  by (simp add: int32_def sint_sbintrunc' bit_signed_take_bit_iff)

lemma int32_or: "int32 (a OR b) = int32 a OR int32 b"
  unfolding int32_def sint_sbintrunc'
  by (rule bit_eqI) (auto simp: bit_signed_take_bit_iff bit_or_iff)

lemma int32_zero: "int32 0 = 0"
  by (simp add: int32_def)

lemma int32_or_all: "int32 (or_all vs) = or_all (map int32 vs)"
  by (induction vs) (simp_all add: or_all_Nil or_all_Cons int32_or int32_zero)

lemma int32_id: "- (2 ^ 31) \<le> v \<Longrightarrow> v < 2 ^ 31 \<Longrightarrow> int32 v = v"
  by (simp add: int32_def sint_sbintrunc' signed_take_bit_int_eq_self_iff)

lemma int32_or_all_id:
  "\<forall>v \<in> set vs. - (2 ^ 31) \<le> v \<and> v < 2 ^ 31 \<Longrightarrow> int32 (or_all vs) = or_all vs"
  unfolding int32_or_all by (induction vs) (simp_all add: or_all_Nil or_all_Cons int32_id)

lemma contribution:
  "ToInt32 (js_times_bool (registry_read reg (name c)) (checked c)) =
     (case (if checked c then reg (name c) else None) of None \<Rightarrow> 0 | Some v \<Rightarrow> word_of_int v)"
  by (simp add: registry_read_def split: option.splits)

lemma ToInt32_sint: "ToInt32 (Num (sint w)) = w"
  by simp

lemma settingsLoop_word:
  "settingsLoop reg cs (Num (sint (w :: 32 word))) =
     Num (sint (w OR word_of_int (or_all (enabled_values reg cs))))"
proof (induction cs arbitrary: w)
  case Nil
  show ?case by (simp add: enabled_values_Nil or_all_Nil)
next
  case (Cons c cs)
  have step: "js_bitor (Num (sint w)) (js_times_bool (registry_read reg (name c)) (checked c))
      = Num (sint (w OR (case (if checked c then reg (name c) else None) of
                          None \<Rightarrow> 0 | Some v \<Rightarrow> word_of_int v)))"
    by (simp only: js_bitor_def contribution ToInt32_sint)
  show ?case
    by (simp only: settingsLoop.simps step Cons.IH)
       (simp add: enabled_values_Cons or_all_Cons word_wi_log_defs [symmetric] ac_simps
          split: option.splits)
qed

lemma settingsMask_eq: "settingsMask reg cs = Num (int32 (or_all (enabled_values reg cs)))"
  using settingsLoop_word [of reg cs 0] by (simp add: settingsMask_def int32_def)

lemma settingsMask_set: "set cs' = set cs \<Longrightarrow> settingsMask reg cs' = settingsMask reg cs"
  unfolding settingsMask_eq
  by (simp add: or_all_set [of "enabled_values reg cs'" "enabled_values reg cs"] set_enabled_values)

lemma mask_bits:
  assumes "settingsMask reg cs = Num m" and "i < 32"
  shows "bit m i \<longleftrightarrow> (\<exists>c \<in> set cs. checked c \<and> (\<exists>v. reg (name c) = Some v \<and> bit v i))"
proof -
  have m: "m = int32 (or_all (enabled_values reg cs))"
    using assms(1) by (simp only: settingsMask_eq jsnum.inject)
  have "bit m i \<longleftrightarrow> (\<exists>v \<in> set (enabled_values reg cs). bit v i)"
    unfolding m by (simp only: int32_bit [OF assms(2)] or_all_bit)
  also have "\<dots> \<longleftrightarrow> (\<exists>c \<in> set cs. checked c \<and> (\<exists>v. reg (name c) = Some v \<and> bit v i))"
    unfolding set_enabled_values by blast
  finally show ?thesis .
qed

lemma mask_none: "\<forall>c \<in> set cs. \<not> checked c \<Longrightarrow> settingsMask reg cs = Num 0"
  by (simp only: settingsMask_eq enabled_none or_all_Nil int32_zero)

lemma mask_all:
  "\<forall>c \<in> set cs. checked c \<Longrightarrow>
   settingsMask reg cs = Num (int32 (or_all (registered_values reg cs)))"
  by (simp only: settingsMask_eq enabled_all)

lemma mask_in_range:
  assumes "\<forall>v \<in> set (enabled_values reg cs). - (2 ^ 31) \<le> v \<and> v < 2 ^ 31"
  shows "settingsMask reg cs = Num (or_all (enabled_values reg cs))"
proof -
  have "int32 (or_all (enabled_values reg cs)) = or_all (enabled_values reg cs)"
    using assms by (rule int32_or_all_id)
  then show ?thesis
    by (simp only: settingsMask_eq)
qed

text \<open>
  C1 as the code has it: the mask of the submit handler is the bitwise OR of the
  registry values of exactly the enabled controls as the operator \<open>|\<close> computes it,
  reduced to 32 bits in two's complement: each of its 32 bits is set if and only if
  some enabled control's value has that bit. It is their plain integer OR when the
  values fit 32 bits, it depends only on the set of controls (not on their order), it
  is 0 when no control is enabled, and it is the 32-bit OR of all registered values
  when every control is enabled.
\<close>

theorem settingsMask_or_of_enabled:
  "settingsMask reg cs = Num (int32 (or_all (enabled_values reg cs)))
   \<and> (\<forall>m. settingsMask reg cs = Num m \<longrightarrow>
         (\<forall>i < 32. bit m i \<longleftrightarrow>
            (\<exists>c \<in> set cs. checked c \<and> (\<exists>v. reg (name c) = Some v \<and> bit v i))))
   \<and> ((\<forall>v \<in> set (enabled_values reg cs). - (2 ^ 31) \<le> v \<and> v < 2 ^ 31) \<longrightarrow>
         settingsMask reg cs = Num (or_all (enabled_values reg cs)))
   \<and> (set cs' = set cs \<longrightarrow> settingsMask reg cs' = settingsMask reg cs)
   \<and> ((\<forall>c \<in> set cs. \<not> checked c) \<longrightarrow> settingsMask reg cs = Num 0)
   \<and> ((\<forall>c \<in> set cs. checked c) \<longrightarrow>
         settingsMask reg cs = Num (int32 (or_all (registered_values reg cs))))"
  using settingsMask_eq [of reg cs] mask_bits [of reg cs] mask_in_range [of reg cs]
    settingsMask_set [of cs' cs reg] mask_none [of cs reg] mask_all [of cs reg]
  by blast

lemma example_registry:
  "settingsValues example_browser (js ''create_members'') = Some 1"
  "settingsValues example_browser (js ''view_members'') = Some 2"
  "settingsValues example_browser (js ''edit_settings'') = Some 4"
  "settingsValues example_browser (js ''dark_mode'') = None"
  by (simp_all add: example_browser_def)

lemma example_enabled:
  "enabled_values (settingsValues example_browser) (settings_children example_form) = [1, 4]"
  by (simp add: enabled_values_def map_filter_simps example_form_def example_registry)

theorem settingsMask_or_of_enabled_witness:
  "settingsMask (settingsValues example_browser) (settings_children example_form) = Num 5
   \<and> settingsMask (settingsValues example_browser) (rev (settings_children example_form)) = Num 5
   \<and> settingsMask (settingsValues example_browser)
        [\<lparr>name = js ''create_members'', checked = False\<rparr>, \<lparr>name = js ''dark_mode'', checked = False\<rparr>] = Num 0
   \<and> settingsMask (settingsValues example_browser)
        [\<lparr>name = js ''create_members'', checked = True\<rparr>, \<lparr>name = js ''view_members'', checked = True\<rparr>,
         \<lparr>name = js ''edit_settings'', checked = True\<rparr>] = Num 7"
proof -
  let ?reg = "settingsValues example_browser"
  let ?cs = "settings_children example_form"
  let ?off = "[\<lparr>name = js ''create_members'', checked = False\<rparr>,
               \<lparr>name = js ''dark_mode'', checked = False\<rparr>]"
  let ?on = "[\<lparr>name = js ''create_members'', checked = True\<rparr>,
              \<lparr>name = js ''view_members'', checked = True\<rparr>,
              \<lparr>name = js ''edit_settings'', checked = True\<rparr>]"
  note T = settingsMask_or_of_enabled [of ?reg ?cs "rev ?cs"]
  have a: "settingsMask ?reg ?cs = Num 5"
    using T [THEN conjunct2, THEN conjunct2, THEN conjunct1]
    by (simp add: example_enabled or_all_def)
  have b: "settingsMask ?reg (rev ?cs) = Num 5"
    using T [THEN conjunct2, THEN conjunct2, THEN conjunct2, THEN conjunct1] a
    by simp
  have c: "settingsMask ?reg ?off = Num 0"
    using settingsMask_or_of_enabled [of ?reg ?off "[]", THEN conjunct2, THEN conjunct2,
        THEN conjunct2, THEN conjunct2, THEN conjunct1]
    by simp
  have d: "settingsMask ?reg ?on = Num 7"
    using settingsMask_or_of_enabled [of ?reg ?on "[]", THEN conjunct2, THEN conjunct2,
        THEN conjunct2, THEN conjunct2, THEN conjunct2]
    by (simp add: registered_values_def map_filter_simps example_registry or_all_def int32_def)
  from a b c d show ?thesis by (intro conjI)
qed

text \<open>
  The mask is not the plain OR of the bit values: a registered value of \<open>2 ^ 32\<close>,
  enabled, leaves the mask 0.
\<close>

theorem settingsMask_loses_high_bits:
  "settingsMask [js ''wide'' \<mapsto> 2 ^ 32] [\<lparr>name = js ''wide'', checked = True\<rparr>] = Num 0
   \<and> or_all (enabled_values [js ''wide'' \<mapsto> 2 ^ 32] [\<lparr>name = js ''wide'', checked = True\<rparr>])
       = 4294967296"
  by (simp add: settingsMask_def js_bitor_def registry_read_def enabled_values_def
      map_filter_simps or_all_def)

text \<open>
  C6: a control whose name has no entry in the registry adds nothing to the mask,
  enabled or not: the mask is the one computed without it, and the mask of any list of
  controls is the mask of its registered controls alone.
\<close>

theorem unregistered_control_ignored:
  assumes "reg (name c) = None"
  shows "settingsMask reg (xs @ c # ys) = settingsMask reg (xs @ ys)
       \<and> settingsMask reg (xs @ c # ys) =
           settingsMask reg (filter (\<lambda>d. reg (name d) \<noteq> None) (xs @ c # ys))"
proof -
  have "enabled_values reg [c] = []"
    using assms by (simp add: enabled_values_Cons enabled_values_Nil)
  then have "enabled_values reg (xs @ [c] @ ys) = enabled_values reg (xs @ ys)"
    by (simp only: enabled_values_append append_Nil)
  then have one: "settingsMask reg (xs @ c # ys) = settingsMask reg (xs @ ys)"
    by (simp add: settingsMask_eq)
  have two: "settingsMask reg (xs @ c # ys) =
      settingsMask reg (filter (\<lambda>d. reg (name d) \<noteq> None) (xs @ c # ys))"
    by (simp only: settingsMask_eq enabled_values_registered)
  from one two show ?thesis ..
qed

theorem unregistered_control_ignored_witness:
  "settingsMask (settingsValues example_browser)
     [\<lparr>name = js ''create_members'', checked = True\<rparr>, \<lparr>name = js ''dark_mode'', checked = True\<rparr>,
      \<lparr>name = js ''edit_settings'', checked = True\<rparr>] = Num 5
   \<and> settingsMask (settingsValues example_browser)
     [\<lparr>name = js ''create_members'', checked = True\<rparr>, \<lparr>name = js ''dark_mode'', checked = False\<rparr>,
      \<lparr>name = js ''edit_settings'', checked = True\<rparr>] = Num 5"
proof -
  let ?reg = "settingsValues example_browser"
  have m: "settingsMask ?reg
     [\<lparr>name = js ''create_members'', checked = True\<rparr>, \<lparr>name = js ''edit_settings'', checked = True\<rparr>] = Num 5"
    by (simp add: settingsMask_def js_bitor_def registry_read_def example_registry)
  have u: "?reg (name \<lparr>name = js ''dark_mode'', checked = e\<rparr>) = None" for e
    by (simp add: example_registry)
  show ?thesis
    using unregistered_control_ignored [of ?reg "\<lparr>name = js ''dark_mode'', checked = True\<rparr>"
        "[\<lparr>name = js ''create_members'', checked = True\<rparr>]"
        "[\<lparr>name = js ''edit_settings'', checked = True\<rparr>]"]
      unregistered_control_ignored [of ?reg "\<lparr>name = js ''dark_mode'', checked = False\<rparr>"
        "[\<lparr>name = js ''create_members'', checked = True\<rparr>]"
        "[\<lparr>name = js ''edit_settings'', checked = True\<rparr>]"] m u
    by simp
qed

section \<open>What each handler does to the page\<close>

lemmas page_ops =
  emit_def set_textContent_def set_linkElm_display_def set_messageBox_display_def

lemma emit_fields:
  "lastUsername (emit e st) = lastUsername st"
  "addUserMessageBoxLink (emit e st) = addUserMessageBoxLink st"
  "textContent (emit e st) = textContent st"
  "linkElm_display (emit e st) = linkElm_display st"
  "messageBox_display (emit e st) = messageBox_display st"
  "trace (emit e st) = trace st @ [e]"
  by (simp_all add: emit_def)

lemma handle_copy:
  "handle t b CopyLink st =
     emit (if navigator_clipboard b then ClipboardWriteText (addUserMessageBoxLink st)
           else Uncaught TypeError) st"
  by (simp add: copyAddUserMessageLink_def)

lemma copy_fields:
  "lastUsername (handle t b CopyLink st) = lastUsername st"
  "addUserMessageBoxLink (handle t b CopyLink st) = addUserMessageBoxLink st"
  "textContent (handle t b CopyLink st) = textContent st"
  "linkElm_display (handle t b CopyLink st) = linkElm_display st"
  "messageBox_display (handle t b CopyLink st) = messageBox_display st"
  by (simp_all only: handle_copy emit_fields)

lemma onSubmit_fields:
  "lastUsername (onSubmit t b f st) = JString (username_value f)"
  "addUserMessageBoxLink (onSubmit t b f st) = addUserMessageBoxLink st"
  "textContent (onSubmit t b f st) = js ''...''"
  "linkElm_display (onSubmit t b f st) = linkElm_display st"
  "messageBox_display (onSubmit t b f st) = messageBox_display st"
  by (simp_all add: onSubmit_def Let_def page_ops)

lemma onSubmit_trace:
  "trace (onSubmit t b f st) =
     trace st @
       [SetTextContent (js ''...''), PreventDefault,
        ConsoleLog (settingsMask (settingsValues b) (settings_children f)),
        Fetch (add_user_request t b f (JString (username_value f))
                 (settingsMask (settingsValues b) (settings_children f)))]"
  by (simp add: onSubmit_def Let_def page_ops)

lemma success_fields:
  assumes "ToBoolean (get_prop data (js ''success''))"
  shows "lastUsername (addUserSuccess t b data st) = lastUsername st"
    and "addUserMessageBoxLink (addUserSuccess t b data st) = registration_link t b data"
    and "textContent (addUserSuccess t b data st) =
          ToString (Number_toString b) (lastUsername st) @ js '' was added.''"
    and "linkElm_display (addUserSuccess t b data st) = []"
    and "messageBox_display (addUserSuccess t b data st) = []"
  using assms by (simp_all add: addUserSuccess_def Let_def page_ops)

lemma failure_fields:
  assumes "\<not> ToBoolean (get_prop data (js ''success''))"
  shows "lastUsername (addUserSuccess t b data st) = lastUsername st"
    and "addUserMessageBoxLink (addUserSuccess t b data st) = addUserMessageBoxLink st"
    and "textContent (addUserSuccess t b data st) = failure_text t (get_prop data (js ''reason''))"
    and "linkElm_display (addUserSuccess t b data st) = linkElm_display st"
    and "messageBox_display (addUserSuccess t b data st) = []"
  using assms by (simp_all add: addUserSuccess_def page_ops)

lemma addUserSuccess_shows: "messageBox_display (addUserSuccess t b data st) = []"
  by (cases "ToBoolean (get_prop data (js ''success''))")
     (simp_all add: success_fields failure_fields)

lemma addUserSuccess_lastUsername: "lastUsername (addUserSuccess t b data st) = lastUsername st"
  by (cases "ToBoolean (get_prop data (js ''success''))")
     (simp_all add: success_fields failure_fields)

lemma run_Nil: "run t b [] st = st"
  by (simp add: run_def)

lemma run_Cons: "run t b (e # es) st = run t b es (handle t b e st)"
  by (simp add: run_def)

lemma handle_lastUsername:
  "\<not> is_submit e \<Longrightarrow> lastUsername (handle t b e st) = lastUsername st"
  by (cases e) (simp_all add: addUserSuccess_lastUsername copy_fields del: handle.simps(3))

lemma run_lastUsername:
  "\<forall>e \<in> set es. \<not> is_submit e \<Longrightarrow> lastUsername (run t b es st) = lastUsername st"
  by (induction es arbitrary: st) (simp_all add: run_Nil run_Cons handle_lastUsername)

lemma handle_link:
  "\<not> is_success e \<Longrightarrow> addUserMessageBoxLink (handle t b e st) = addUserMessageBoxLink st"
  by (cases e) (simp_all add: failure_fields copy_fields onSubmit_fields del: handle.simps(3))

lemma run_link:
  "\<forall>e \<in> set es. \<not> is_success e \<Longrightarrow>
   addUserMessageBoxLink (run t b es st) = addUserMessageBoxLink st"
  by (induction es arbitrary: st) (simp_all add: run_Nil run_Cons handle_link)

lemma handle_shown: "panel_shown st \<Longrightarrow> panel_shown (handle t b e st)"
  by (cases e)
     (simp_all add: panel_shown_def addUserSuccess_shows copy_fields onSubmit_fields
        del: handle.simps(3))

lemma run_shown: "panel_shown st \<Longrightarrow> panel_shown (run t b es st)"
  by (induction es arbitrary: st) (simp_all add: run_Nil run_Cons handle_shown)

lemma js_append: "js (xs @ ys) = js xs @ js ys"
  by (simp add: js_def)

lemma get_success_response:
  "get_prop (success_response token) (js ''success'') = JBool True"
  "get_prop (success_response token) (js ''slot'') = JString token"
  by (simp_all add: success_response_def get_prop_def)

lemma get_failure_response:
  "get_prop (failure_response code) (js ''success'') = JBool False"
  "get_prop (failure_response code) (js ''reason'') = JString code"
  by (simp_all add: failure_response_def get_prop_def)

lemma example_page_fields:
  "lastUsername example_page = JNull"
  "addUserMessageBoxLink example_page = []"
  "trace example_page = []"
  "messageBox_display example_page = js ''none''"
  "linkElm_display example_page = js ''none''"
  by (simp_all add: example_page_def initial_page_def)

section \<open>Rendering a response\<close>

lemma messages_distinct:
  "distinct
     [js ''Nutzername wird bereits verwendet.'',
      js ''Nutzername muss k'' @ [0xFC] @ js ''rzer sein.'',
      js ''Nutzername muss l'' @ [0xE4] @ js ''nger sein.'',
      js ''Dein Nutzername kann nicht 'Anonymous' sein.'',
      js ''Nutzername muss aus den Zeichen a-z, A-Z, 0-9, _ und - bestehen.'',
      js ''Konnte nicht erstellt werden.'']"
  by (simp add: js_def)

text \<open>
  C2: on a failure response, \<open>addUserSuccess\<close> shows, for each of the five known
  reason codes, that code's own message, matching the code exactly; any other reason
  (also the empty string, and a value that is no string) gives the fallback
  \<open>Konnte nicht erstellt werden.\<close>; the six messages are pairwise different. The five
  codes are constants of the template, taken to be pairwise different.
\<close>

theorem failure_reason_to_message:
  assumes "\<not> ToBoolean (get_prop data (js ''success''))"
    and "get_prop data (js ''reason'') = r"
    and "distinct [AlreadyExistsError_identifier t, UsernameTooLong_identifier t,
           UsernameTooShort_identifier t, CannotBeNamedAnonymous_identifier t,
           UsernameInvalidCharacters_identifier t]"
  shows "(r = JString (AlreadyExistsError_identifier t) \<longrightarrow>
           textContent (addUserSuccess t b data st) = js ''Nutzername wird bereits verwendet.'')
       \<and> (r = JString (UsernameTooLong_identifier t) \<longrightarrow>
           textContent (addUserSuccess t b data st) = js ''Nutzername muss k'' @ [0xFC] @ js ''rzer sein.'')
       \<and> (r = JString (UsernameTooShort_identifier t) \<longrightarrow>
           textContent (addUserSuccess t b data st) = js ''Nutzername muss l'' @ [0xE4] @ js ''nger sein.'')
       \<and> (r = JString (CannotBeNamedAnonymous_identifier t) \<longrightarrow>
           textContent (addUserSuccess t b data st) = js ''Dein Nutzername kann nicht 'Anonymous' sein.'')
       \<and> (r = JString (UsernameInvalidCharacters_identifier t) \<longrightarrow>
           textContent (addUserSuccess t b data st) =
             js ''Nutzername muss aus den Zeichen a-z, A-Z, 0-9, _ und - bestehen.'')
       \<and> (r \<notin> JString ` {AlreadyExistsError_identifier t, UsernameTooLong_identifier t,
                UsernameTooShort_identifier t, CannotBeNamedAnonymous_identifier t,
                UsernameInvalidCharacters_identifier t} \<longrightarrow>
           textContent (addUserSuccess t b data st) = js ''Konnte nicht erstellt werden.'')
       \<and> distinct
           [js ''Nutzername wird bereits verwendet.'',
            js ''Nutzername muss k'' @ [0xFC] @ js ''rzer sein.'',
            js ''Nutzername muss l'' @ [0xE4] @ js ''nger sein.'',
            js ''Dein Nutzername kann nicht 'Anonymous' sein.'',
            js ''Nutzername muss aus den Zeichen a-z, A-Z, 0-9, _ und - bestehen.'',
            js ''Konnte nicht erstellt werden.'']"
proof -
  let ?T = "textContent (addUserSuccess t b data st)"
  have tc: "?T = failure_text t r"
    using assms(1,2) by (simp add: failure_fields)
  have ne:
    "UsernameTooLong_identifier t \<noteq> AlreadyExistsError_identifier t"
    "UsernameTooShort_identifier t \<noteq> AlreadyExistsError_identifier t"
    "UsernameTooShort_identifier t \<noteq> UsernameTooLong_identifier t"
    "CannotBeNamedAnonymous_identifier t \<noteq> AlreadyExistsError_identifier t"
    "CannotBeNamedAnonymous_identifier t \<noteq> UsernameTooLong_identifier t"
    "CannotBeNamedAnonymous_identifier t \<noteq> UsernameTooShort_identifier t"
    "UsernameInvalidCharacters_identifier t \<noteq> AlreadyExistsError_identifier t"
    "UsernameInvalidCharacters_identifier t \<noteq> UsernameTooLong_identifier t"
    "UsernameInvalidCharacters_identifier t \<noteq> UsernameTooShort_identifier t"
    "UsernameInvalidCharacters_identifier t \<noteq> CannotBeNamedAnonymous_identifier t"
    using assms(3) by auto
  have c1: "r = JString (AlreadyExistsError_identifier t) \<longrightarrow>
      ?T = js ''Nutzername wird bereits verwendet.''"
    by (simp add: tc failure_text_def)
  have c2: "r = JString (UsernameTooLong_identifier t) \<longrightarrow>
      ?T = js ''Nutzername muss k'' @ [0xFC] @ js ''rzer sein.''"
    by (simp add: tc failure_text_def ne)
  have c3: "r = JString (UsernameTooShort_identifier t) \<longrightarrow>
      ?T = js ''Nutzername muss l'' @ [0xE4] @ js ''nger sein.''"
    by (simp add: tc failure_text_def ne)
  have c4: "r = JString (CannotBeNamedAnonymous_identifier t) \<longrightarrow>
      ?T = js ''Dein Nutzername kann nicht 'Anonymous' sein.''"
    by (simp add: tc failure_text_def ne)
  have c5: "r = JString (UsernameInvalidCharacters_identifier t) \<longrightarrow>
      ?T = js ''Nutzername muss aus den Zeichen a-z, A-Z, 0-9, _ und - bestehen.''"
    by (simp add: tc failure_text_def ne)
  have c6: "r \<notin> JString ` {AlreadyExistsError_identifier t, UsernameTooLong_identifier t,
                UsernameTooShort_identifier t, CannotBeNamedAnonymous_identifier t,
                UsernameInvalidCharacters_identifier t} \<longrightarrow>
      ?T = js ''Konnte nicht erstellt werden.''"
    by (simp add: tc failure_text_def)
  from c1 c2 c3 c4 c5 c6 messages_distinct show ?thesis
    by (intro conjI)
qed

theorem failure_reason_to_message_witness:
  "textContent (addUserSuccess example_template example_browser
      (failure_response (js ''UsernameTooLong'')) example_page)
     = js ''Nutzername muss k'' @ [0xFC] @ js ''rzer sein.''
   \<and> textContent (addUserSuccess example_template example_browser
      (failure_response []) example_page)
     = js ''Konnte nicht erstellt werden.''
   \<and> textContent (addUserSuccess example_template example_browser
      (failure_response (js ''usernametoolong'')) example_page)
     = js ''Konnte nicht erstellt werden.''"
proof -
  have d: "distinct [AlreadyExistsError_identifier example_template,
      UsernameTooLong_identifier example_template, UsernameTooShort_identifier example_template,
      CannotBeNamedAnonymous_identifier example_template,
      UsernameInvalidCharacters_identifier example_template]"
    by (simp add: example_template_def)
  have f: "\<not> ToBoolean (get_prop (failure_response code) (js ''success''))" for code
    by (simp add: get_failure_response)
  note w = failure_reason_to_message [OF f get_failure_response(2) d, of _ example_browser
      example_page]
  have long: "textContent (addUserSuccess example_template example_browser
      (failure_response (js ''UsernameTooLong'')) example_page)
     = js ''Nutzername muss k'' @ [0xFC] @ js ''rzer sein.''"
    using w [of "js ''UsernameTooLong''", THEN conjunct2, THEN conjunct1]
    by (simp add: example_template_def)
  have empty: "textContent (addUserSuccess example_template example_browser
      (failure_response []) example_page) = js ''Konnte nicht erstellt werden.''"
    using w [of "[]", THEN conjunct2, THEN conjunct2, THEN conjunct2, THEN conjunct2,
        THEN conjunct2, THEN conjunct1]
    by (simp add: example_template_def)
  have lower: "textContent (addUserSuccess example_template example_browser
      (failure_response (js ''usernametoolong'')) example_page)
     = js ''Konnte nicht erstellt werden.''"
    using w [of "js ''usernametoolong''", THEN conjunct2, THEN conjunct2, THEN conjunct2,
        THEN conjunct2, THEN conjunct2, THEN conjunct1]
    by (simp add: example_template_def)
  from long empty lower show ?thesis by (intro conjI)
qed

text \<open>
  C3: on a success response whose data field is a string, the stored registration link
  is \<open>https://\<close>, the host, the registration path, \<open>?user_slot=\<close> and that string,
  code unit for code unit. The scheme is the constant \<open>https://\<close>: the page's own
  scheme is not read.
\<close>

theorem success_link:
  assumes "ToBoolean (get_prop data (js ''success''))"
    and "get_prop data (FIELD_DATA t) = JString token"
  shows "addUserMessageBoxLink (addUserSuccess t b data st) =
           js ''https://'' @ location_host b @ register_url t @ js ''?user_slot='' @ token"
  using assms by (simp add: success_fields registration_link_def)

theorem success_link_witness:
  "addUserMessageBoxLink
     (addUserSuccess example_template example_browser
        (success_response (js ''a b&c=d%2F?#'' @ [0xE9, 0x2026])) example_page) =
   js ''https://panel.example.org:8443/register?user_slot=a b&c=d%2F?#'' @ [0xE9, 0x2026]"
proof -
  let ?token = "js ''a b&c=d%2F?#'' @ [0xE9, 0x2026]"
  have ok: "ToBoolean (get_prop (success_response ?token) (js ''success''))"
    by (simp add: get_success_response)
  have tok: "get_prop (success_response ?token) (FIELD_DATA example_template) = JString ?token"
    by (simp add: get_success_response example_template_def)
  show ?thesis
    using success_link [OF ok tok, of example_browser example_page]
    by (simp add: example_template_def example_browser_def js_append [symmetric])
qed

text \<open>
  C5: after a submit, and whatever responses and copies come in between, a success
  response shows the username of that submit followed by \<open> was added.\<close>
\<close>

theorem success_message:
  assumes "ToBoolean (get_prop data (js ''success''))"
    and "\<forall>e \<in> set es. \<not> is_submit e"
  shows "textContent (addUserSuccess t b data (run t b es (onSubmit t b f st))) =
           username_value f @ js '' was added.''"
  using assms by (simp add: success_fields run_lastUsername onSubmit_fields)

theorem success_message_witness:
  "textContent
     (addUserSuccess example_template example_browser (success_response (js ''abc123''))
        (run example_template example_browser
           [CopyLink, Response (failure_response (js ''AlreadyExists''))]
           (onSubmit example_template example_browser example_form example_page))) =
   js ''alice was added.''"
proof -
  have ok: "ToBoolean (get_prop (success_response (js ''abc123'')) (js ''success''))"
    by (simp add: get_success_response)
  have quiet: "\<forall>e \<in> set [CopyLink, Response (failure_response (js ''AlreadyExists''))].
      \<not> is_submit e"
    by simp
  show ?thesis
    using success_message [OF ok quiet, of example_template example_browser example_form
        example_page]
    by (simp add: example_form_def js_append [symmetric])
qed

text \<open>
  C7: \<open>addUserSuccess\<close> shows the result panel on every response, and no handler hides
  it again: once shown it stays shown through every later submit, response and copy.
\<close>

theorem panel_stays_shown:
  "panel_shown (addUserSuccess t b data st)
   \<and> (panel_shown st \<longrightarrow> panel_shown (run t b es st))
   \<and> panel_shown (run t b es (addUserSuccess t b data st))"
proof -
  have shown: "panel_shown (addUserSuccess t b data st)"
    by (simp add: panel_shown_def addUserSuccess_shows)
  from shown run_shown [of st t b es] run_shown [OF shown, of t b es] show ?thesis
    by blast
qed

theorem panel_stays_shown_witness:
  "panel_shown
     (run example_template example_browser
        [Submit example_form, CopyLink, Response (success_response (js ''abc123''))]
        (addUserSuccess example_template example_browser
           (failure_response (js ''UsernameTooLong'')) example_page))
   \<and> \<not> panel_shown example_page"
proof -
  let ?st = "addUserSuccess example_template example_browser
      (failure_response (js ''UsernameTooLong'')) example_page"
  note T = panel_stays_shown [of example_template example_browser
      "failure_response (js ''UsernameTooLong'')" example_page
      "[Submit example_form, CopyLink, Response (success_response (js ''abc123''))]"]
  have shown: "panel_shown ?st"
    using T by (rule conjunct1)
  have "panel_shown ?st \<longrightarrow>
      panel_shown (run example_template example_browser
        [Submit example_form, CopyLink, Response (success_response (js ''abc123''))] ?st)"
    using panel_stays_shown [of example_template example_browser
      "success_response (js ''abc123'')" ?st
      "[Submit example_form, CopyLink, Response (success_response (js ''abc123''))]"]
    by blast
  with shown show ?thesis
    by (simp add: panel_shown_def example_page_fields)
qed

section \<open>Reading back what JSON.stringify writes\<close>





























section \<open>The request\<close>
























lemma quote_example:
  "QuoteJSONString [0x61, 0x22, 0x5C, 0x0A, 0x01, 0xE9] =
     [0x22, 0x61, 0x5C, 0x22, 0x5C, 0x5C, 0x5C, 0x6E, 0x5C, 0x75, 0x30, 0x30, 0x30, 0x31, 0xE9,
      0x22]"
  by (simp add: QuoteJSONString_def is_high_surrogate_def is_low_surrogate_def escape_unit_def
      unicode_escape_def hex_digit_def)

section \<open>Copying the link\<close>

lemma copy_result:
  "copyAddUserMessageLink b st =
     (if navigator_clipboard b
      then Inr (emit (ClipboardWriteText (addUserMessageBoxLink st)) st)
      else Inl TypeError)"
  by (simp add: copyAddUserMessageLink_def)

text \<open>
  C8 as the code has it: the stored registration link starts as the empty string and
  only a success response changes it; so after any events without a success response
  the copy handler hands the empty string to the clipboard and does not throw where
  \<open>navigator.clipboard\<close> is defined. Where it is undefined the handler throws a
  TypeError and writes nothing.
\<close>

theorem copy_before_success:
  assumes "\<forall>e \<in> set es. \<not> is_success e"
  shows "addUserMessageBoxLink (initial_page content shown_link shown_box) = []
       \<and> (\<forall>e st. \<not> is_success e \<longrightarrow>
             addUserMessageBoxLink (handle t b e st) = addUserMessageBoxLink st)
       \<and> copyAddUserMessageLink b (run t b es (initial_page content shown_link shown_box)) =
           (if navigator_clipboard b
            then Inr (emit (ClipboardWriteText []) (run t b es (initial_page content shown_link shown_box)))
            else Inl TypeError)"
proof -
  have start: "addUserMessageBoxLink (initial_page content shown_link shown_box) = []"
    by (simp add: initial_page_def)
  have "addUserMessageBoxLink (run t b es (initial_page content shown_link shown_box)) = []"
    using assms by (simp add: run_link start)
  then have copy: "copyAddUserMessageLink b (run t b es (initial_page content shown_link shown_box)) =
      (if navigator_clipboard b
       then Inr (emit (ClipboardWriteText []) (run t b es (initial_page content shown_link shown_box)))
       else Inl TypeError)"
    by (simp only: copy_result)
  from start copy show ?thesis
    by (simp add: handle_link)
qed

theorem copy_before_success_witness:
  "copyAddUserMessageLink example_browser example_page =
     Inr (emit (ClipboardWriteText []) example_page)
   \<and> copyAddUserMessageLink example_browser
        (run example_template example_browser
           [Submit example_form, Response (failure_response (js ''UsernameTooShort'')), CopyLink]
           example_page) =
     Inr (emit (ClipboardWriteText [])
        (run example_template example_browser
           [Submit example_form, Response (failure_response (js ''UsernameTooShort'')), CopyLink]
           example_page))"
proof -
  have none: "\<forall>e \<in> set []. \<not> is_success e"
    by simp
  have fails: "\<forall>e \<in> set [Submit example_form,
      Response (failure_response (js ''UsernameTooShort'')), CopyLink]. \<not> is_success e"
    by (simp add: get_failure_response)
  have present: "navigator_clipboard example_browser"
    by (simp add: example_browser_def)
  show ?thesis
    using copy_before_success [where content = "[]" and shown_link = "js ''none''"
        and shown_box = "js ''none''" and b = example_browser and t = example_template,
        OF none, THEN conjunct2, THEN conjunct2]
      copy_before_success [where content = "[]" and shown_link = "js ''none''"
        and shown_box = "js ''none''" and b = example_browser and t = example_template,
        OF fails, THEN conjunct2, THEN conjunct2]
    by (simp add: present example_page_def run_Nil)
qed

text \<open>
  On a page where \<open>navigator.clipboard\<close> is undefined the copy handler throws, also
  before any submission.
\<close>

theorem copy_throws_without_clipboard:
  "copyAddUserMessageLink insecure_browser example_page = Inl TypeError
   \<and> trace (run example_template insecure_browser [CopyLink] example_page) = [Uncaught TypeError]"
  by (simp add: copy_result insecure_browser_def run_def handle_copy emit_fields
      example_page_fields del: handle.simps(3))

text \<open>
  C9 as the code has it: every submit first sets the status text to three full stops
  (\<open>...\<close>, three code units \<open>0x2E\<close>), before anything else and so before the request
  is issued, and the text is still that when the handler returns.
\<close>

theorem placeholder_is_three_dots:
  "js ''...'' = [0x2E, 0x2E, 0x2E]
   \<and> textContent (onSubmit t b f st) = js ''...''
   \<and> trace (onSubmit t b f st) =
       trace st @
         [SetTextContent (js ''...''), PreventDefault,
          ConsoleLog (settingsMask (settingsValues b) (settings_children f)),
          Fetch (add_user_request t b f (JString (username_value f))
                   (settingsMask (settingsValues b) (settings_children f)))]"
  by (simp add: onSubmit_fields onSubmit_trace) (simp add: js_def)

text \<open>The placeholder is not the single horizontal ellipsis \<open>0x2026\<close>.\<close>

theorem placeholder_not_ellipsis:
  "textContent (onSubmit example_template example_browser example_form example_page) \<noteq> [0x2026]"
  by (simp add: onSubmit_fields js_def)

text \<open>
  C10: a failure response leaves the stored registration link and the display of the
  copy link as they were; after a success and then a failure the link element is still
  shown, the stored link is that of the success, and it is what the copy handler hands
  to the clipboard (where \<open>navigator.clipboard\<close> is undefined the handler throws
  instead).
\<close>

theorem failure_keeps_link:
  assumes "\<not> ToBoolean (get_prop data (js ''success''))"
  shows "addUserMessageBoxLink (addUserSuccess t b data st) = addUserMessageBoxLink st
       \<and> linkElm_display (addUserSuccess t b data st) = linkElm_display st
       \<and> (ToBoolean (get_prop ok (js ''success'')) \<longrightarrow>
            linkElm_display (addUserSuccess t b data (addUserSuccess t b ok st)) = []
          \<and> addUserMessageBoxLink (addUserSuccess t b data (addUserSuccess t b ok st)) =
              registration_link t b ok
          \<and> copyAddUserMessageLink b (addUserSuccess t b data (addUserSuccess t b ok st)) =
              (if navigator_clipboard b
               then Inr (emit (ClipboardWriteText (registration_link t b ok))
                           (addUserSuccess t b data (addUserSuccess t b ok st)))
               else Inl TypeError))"
  using assms by (simp add: failure_fields success_fields copy_result)

theorem failure_keeps_link_witness:
  "copyAddUserMessageLink example_browser
      (addUserSuccess example_template example_browser (failure_response (js ''AlreadyExists''))
         (addUserSuccess example_template example_browser (success_response (js ''abc123''))
            (onSubmit example_template example_browser example_form example_page))) =
     Inr (emit (ClipboardWriteText (js ''https://panel.example.org:8443/register?user_slot=abc123''))
       (addUserSuccess example_template example_browser (failure_response (js ''AlreadyExists''))
         (addUserSuccess example_template example_browser (success_response (js ''abc123''))
            (onSubmit example_template example_browser example_form example_page))))
   \<and> linkElm_display
      (addUserSuccess example_template example_browser (failure_response (js ''AlreadyExists''))
         (addUserSuccess example_template example_browser (success_response (js ''abc123''))
            (onSubmit example_template example_browser example_form example_page))) = []"
proof -
  have bad: "\<not> ToBoolean (get_prop (failure_response (js ''AlreadyExists'')) (js ''success''))"
    by (simp add: get_failure_response)
  have good: "ToBoolean (get_prop (success_response (js ''abc123'')) (js ''success''))"
    by (simp add: get_success_response)
  have link: "registration_link example_template example_browser (success_response (js ''abc123''))
      = js ''https://panel.example.org:8443/register?user_slot=abc123''"
    by (simp add: registration_link_def example_template_def example_browser_def
        get_success_response js_append [symmetric])
  have present: "navigator_clipboard example_browser"
    by (simp add: example_browser_def)
  show ?thesis
    using failure_keeps_link [OF bad, of example_template example_browser
        "onSubmit example_template example_browser example_form example_page"
        "success_response (js ''abc123'')"] good
    by (simp add: link present)
qed

end
